theory Spec2Isabelle
  imports Complex_Main "HOL-Library.Sublist"
begin

section \<open>Strings and JSON values as the TypeScript code sees them\<close>

text \<open>
  A JavaScript string is modelled as a \<^typ>\<open>string\<close>. An optional field
  (\<open>id?: string\<close>, or one that may be \<open>null\<close>) is a \<^typ>\<open>string option\<close>.
  The source tests such fields for truthiness (\<open>if (call.id)\<close>): a string is truthy
  when it is present and not empty.
\<close>

definition truthy :: "string option \<Rightarrow> bool" where
  "truthy s = (case s of None \<Rightarrow> False | Some t \<Rightarrow> t \<noteq> [])"

text \<open>
  \<open>String.prototype.trim\<close> removes white space and line terminators from both ends.
  Of the characters ECMAScript lists, those that fit a byte are TAB, LF, VT, FF, CR,
  SPACE and NBSP.
\<close>

definition is_whitespace :: "char \<Rightarrow> bool" where
  "is_whitespace c = (of_char c \<in> {9, 10, 11, 12, 13, 32, 160 :: nat})"

definition trim :: "string \<Rightarrow> string" where
  "trim s = rev (dropWhile is_whitespace (rev (dropWhile is_whitespace s)))"

text \<open>
  The decimal rendering of an integer, as the template literal
  \<open>`tool_call_${index}`\<close> produces it for an integral index.
\<close>

definition digit_char :: "nat \<Rightarrow> char" where
  "digit_char d =
     (if d = 0 then CHR ''0'' else if d = 1 then CHR ''1'' else if d = 2 then CHR ''2''
      else if d = 3 then CHR ''3'' else if d = 4 then CHR ''4'' else if d = 5 then CHR ''5''
      else if d = 6 then CHR ''6'' else if d = 7 then CHR ''7'' else if d = 8 then CHR ''8''
      else CHR ''9'')"

fun string_of_nat :: "nat \<Rightarrow> string" where
  "string_of_nat n =
     (if n < 10 then [digit_char n] else string_of_nat (n div 10) @ [digit_char (n mod 10)])"

declare string_of_nat.simps [simp del]

definition string_of_int :: "int \<Rightarrow> string" where
  "string_of_int i = (if i < 0 then CHR ''-'' # string_of_nat (nat (- i)) else string_of_nat (nat i))"

text \<open>
  The values \<open>JSON.parse\<close> returns and the object literals the source builds
  (\<open>{}\<close> and \<open>{ _raw: ... }\<close>).
\<close>

datatype json =
    JNull
  | JBool bool
  | JNumber real
  | JString string
  | JArray "json list"
  | JObject "(string \<times> json) list"

section \<open>The stream aggregator (qwen-client.ts, streamChatCompletion)\<close>

text \<open>
  The chunks of the completion stream, with the optional fields the loop reads:
  \<open>chunk.choices[0]?.delta\<close>, \<open>delta?.content\<close>, \<open>delta?.tool_calls\<close>, and per
  tool-call fragment \<open>call.index\<close>, \<open>call.id\<close>, \<open>call.function?.name\<close>,
  \<open>call.function?.arguments\<close>.
\<close>

record FunctionDelta =
  fn_name :: "string option"
  fn_arguments :: "string option"

record ToolCallDelta =
  call_index :: "int option"
  call_id :: "string option"
  call_function :: "FunctionDelta option"

record Delta =
  content :: "string option"
  tool_calls :: "ToolCallDelta list option"

record Choice =
  delta :: "Delta option"

record Chunk =
  choices :: "Choice list"

text \<open>The entries of \<open>toolCallsByIndex\<close>: \<open>{ id: string; name?: string; arguments: string }\<close>.\<close>

record Accumulator =
  acc_id :: string
  acc_name :: "string option"
  acc_arguments :: string

text \<open>\<open>QwenStreamEvent\<close> of types.ts.\<close>

datatype QwenStreamEvent =
    is_text: Text (event_text: string)
  | is_tool_call: ToolCall (callId: string) (name: string) (input: json)

text \<open>
  A JavaScript \<open>Map\<close> keeps its keys in insertion order, and \<open>set\<close> on a key that is
  already there keeps the key's position. It is modelled as an association list.
\<close>

type_synonym ToolCallMap = "(int \<times> Accumulator) list"

fun Map_set :: "int \<Rightarrow> Accumulator \<Rightarrow> ToolCallMap \<Rightarrow> ToolCallMap" where
  "Map_set k v [] = [(k, v)]"
| "Map_set k v (p # ps) = (if fst p = k then (k, v) # ps else p # Map_set k v ps)"

definition Map_get :: "ToolCallMap \<Rightarrow> int \<Rightarrow> Accumulator option" where
  "Map_get m k = map_of m k"

text \<open>Lines 75-80: the index of a fragment, and the accumulator it is merged into.\<close>

definition fragment_index :: "ToolCallDelta \<Rightarrow> int" where
  "fragment_index call = (case call_index call of Some i \<Rightarrow> i | None \<Rightarrow> 0)"

definition fresh_accumulator :: "int \<Rightarrow> ToolCallDelta \<Rightarrow> Accumulator" where
  "fresh_accumulator idx call =
     \<lparr> acc_id = (case call_id call of Some s \<Rightarrow> s | None \<Rightarrow> ''tool_call_'' @ string_of_int idx),
       acc_name = None,
       acc_arguments = [] \<rparr>"

definition function_name :: "ToolCallDelta \<Rightarrow> string option" where
  "function_name call = (case call_function call of None \<Rightarrow> None | Some f \<Rightarrow> fn_name f)"

definition function_arguments :: "ToolCallDelta \<Rightarrow> string option" where
  "function_arguments call = (case call_function call of None \<Rightarrow> None | Some f \<Rightarrow> fn_arguments f)"

text \<open>Lines 82-90: the three conditional updates of \<open>existing\<close>.\<close>

definition merge_fragment :: "Accumulator \<Rightarrow> ToolCallDelta \<Rightarrow> Accumulator" where
  "merge_fragment existing call =
     (let e1 = (if truthy (call_id call) then existing\<lparr>acc_id := the (call_id call)\<rparr> else existing);
          e2 = (if truthy (function_name call) then e1\<lparr>acc_name := function_name call\<rparr> else e1);
          e3 = (if truthy (function_arguments call)
                then e2\<lparr>acc_arguments := acc_arguments e2 @ the (function_arguments call)\<rparr> else e2)
      in e3)"

text \<open>Lines 74-93: the body of \<open>for (const call of toolCalls)\<close>.\<close>

definition accumulate_call :: "ToolCallMap \<Rightarrow> ToolCallDelta \<Rightarrow> ToolCallMap" where
  "accumulate_call toolCallsByIndex call =
     (let idx = fragment_index call;
          existing = (case Map_get toolCallsByIndex idx of
                        Some e \<Rightarrow> e
                      | None \<Rightarrow> fresh_accumulator idx call)
      in Map_set idx (merge_fragment existing call) toolCallsByIndex)"

text \<open>
  Lines 66-94: one iteration of \<open>for await (const chunk of stream)\<close>. It returns the
  events the generator yields during the iteration and the updated map.
\<close>

definition chunk_delta :: "Chunk \<Rightarrow> Delta option" where
  "chunk_delta chunk = (case choices chunk of [] \<Rightarrow> None | c # _ \<Rightarrow> delta c)"

definition chunk_content :: "Chunk \<Rightarrow> string option" where
  "chunk_content chunk = (case chunk_delta chunk of None \<Rightarrow> None | Some d \<Rightarrow> content d)"

definition chunk_tool_calls :: "Chunk \<Rightarrow> ToolCallDelta list option" where
  "chunk_tool_calls chunk = (case chunk_delta chunk of None \<Rightarrow> None | Some d \<Rightarrow> tool_calls d)"

definition consume_chunk :: "ToolCallMap \<Rightarrow> Chunk \<Rightarrow> QwenStreamEvent list \<times> ToolCallMap" where
  "consume_chunk toolCallsByIndex chunk =
     ((if truthy (chunk_content chunk) then [Text (the (chunk_content chunk))] else []),
      (case chunk_tool_calls chunk of
         None \<Rightarrow> toolCallsByIndex
       | Some toolCalls \<Rightarrow> foldl accumulate_call toolCallsByIndex toolCalls))"

text \<open>
  The whole \<open>for await\<close> loop over the chunks the transport delivers before it closes:
  the events yielded so far, in the order they were yielded, and the map.
\<close>

fun consume_stream :: "ToolCallMap \<Rightarrow> Chunk list \<Rightarrow> QwenStreamEvent list \<times> ToolCallMap" where
  "consume_stream toolCallsByIndex [] = ([], toolCallsByIndex)"
| "consume_stream toolCallsByIndex (chunk # rest) =
     (let (events, m) = consume_chunk toolCallsByIndex chunk;
          (later, m') = consume_stream m rest
      in (events @ later, m'))"

text \<open>
  Lines 97-118, run after the loop has ended. \<open>JSON.parse\<close> is the runtime's; it is a
  parameter \<open>parse\<close> that returns \<open>None\<close> where \<open>JSON.parse\<close> throws.
\<close>

definition tool_call_input :: "(string \<Rightarrow> json option) \<Rightarrow> string \<Rightarrow> json" where
  "tool_call_input parse arguments =
     (if length (trim arguments) > 0
      then (case parse arguments of
              Some v \<Rightarrow> v
            | None \<Rightarrow> JObject [(''_raw'', JString arguments)])
      else JObject [])"

definition tool_call_event :: "(string \<Rightarrow> json option) \<Rightarrow> Accumulator \<Rightarrow> QwenStreamEvent" where
  "tool_call_event parse call =
     ToolCall (acc_id call)
              (case acc_name call of Some n \<Rightarrow> n | None \<Rightarrow> ''tool'')
              (tool_call_input parse (acc_arguments call))"

definition ordered_entries :: "ToolCallMap \<Rightarrow> ToolCallMap" where
  "ordered_entries toolCallsByIndex = sort_key fst toolCallsByIndex"

definition finalize :: "(string \<Rightarrow> json option) \<Rightarrow> ToolCallMap \<Rightarrow> QwenStreamEvent list" where
  "finalize parse toolCallsByIndex =
     (if length toolCallsByIndex > 0
      then map (\<lambda>(_, call). tool_call_event parse call) (ordered_entries toolCallsByIndex)
      else [])"

text \<open>
  The events \<open>streamChatCompletion\<close> yields, in order, when the transport delivers
  \<open>chunks\<close> and then closes (from line 60 on: the client is initialised and the stream
  is open).
\<close>

definition streamChatCompletion :: "(string \<Rightarrow> json option) \<Rightarrow> Chunk list \<Rightarrow> QwenStreamEvent list" where
  "streamChatCompletion parse chunks =
     (let (events, toolCallsByIndex) = consume_stream [] chunks
      in events @ finalize parse toolCallsByIndex)"


subsection \<open>What the aggregator is specified to compute\<close>

text \<open>
  The notions the specification uses, read off the chunks themselves and not through the
  functions above: the text a chunk carries (none when the first choice, its delta or the
  content is missing or the content is empty), the tool-call fragments it carries, the
  index a fragment belongs to (0 when it has none), and the name and argument piece of a
  fragment.
\<close>

definition delta_text :: "Chunk \<Rightarrow> string list" where
  "delta_text chunk =
     (case choices chunk of
        [] \<Rightarrow> []
      | first # _ \<Rightarrow>
          (case delta first of
             None \<Rightarrow> []
           | Some d \<Rightarrow> (case content d of None \<Rightarrow> [] | Some s \<Rightarrow> if s = [] then [] else [s])))"

definition delta_fragments :: "Chunk \<Rightarrow> ToolCallDelta list" where
  "delta_fragments chunk =
     (case choices chunk of
        [] \<Rightarrow> []
      | first # _ \<Rightarrow>
          (case delta first of
             None \<Rightarrow> []
           | Some d \<Rightarrow> (case tool_calls d of None \<Rightarrow> [] | Some calls \<Rightarrow> calls)))"

definition index_of :: "ToolCallDelta \<Rightarrow> int" where
  "index_of call = (case call_index call of None \<Rightarrow> 0 | Some i \<Rightarrow> i)"

definition name_of :: "ToolCallDelta \<Rightarrow> string option" where
  "name_of call = (case call_function call of None \<Rightarrow> None | Some f \<Rightarrow> fn_name f)"

definition arguments_of :: "ToolCallDelta \<Rightarrow> string" where
  "arguments_of call =
     (case call_function call of
        None \<Rightarrow> []
      | Some f \<Rightarrow> (case fn_arguments f of None \<Rightarrow> [] | Some a \<Rightarrow> a))"

text \<open>
  The text deltas and the fragments of a stream in arrival order, the fragments of one
  index, and the set of indices that occur.
\<close>

definition text_deltas :: "Chunk list \<Rightarrow> string list" where
  "text_deltas chunks = concat (map delta_text chunks)"

definition fragments :: "Chunk list \<Rightarrow> ToolCallDelta list" where
  "fragments chunks = concat (map delta_fragments chunks)"

definition fragments_at :: "int \<Rightarrow> Chunk list \<Rightarrow> ToolCallDelta list" where
  "fragments_at i chunks = filter (\<lambda>c. index_of c = i) (fragments chunks)"

definition tool_call_indices :: "Chunk list \<Rightarrow> int set" where
  "tool_call_indices chunks = index_of ` set (fragments chunks)"

text \<open>
  Last writer wins: a fragment supplies an identifier or a name when the field is a
  non-empty string, and the last one supplied counts. The arguments are the
  concatenation of all pieces.
\<close>

definition supplied :: "string option \<Rightarrow> bool" where
  "supplied field = (field \<noteq> None \<and> field \<noteq> Some [])"

definition last_supplied :: "string option list \<Rightarrow> string option" where
  "last_supplied xs = (case filter supplied xs of [] \<Rightarrow> None | y # ys \<Rightarrow> last (y # ys))"

definition merged_arguments :: "ToolCallDelta list \<Rightarrow> string" where
  "merged_arguments frs = concat (map arguments_of frs)"

definition merged_name :: "ToolCallDelta list \<Rightarrow> string" where
  "merged_name frs =
     (case last_supplied (map name_of frs) of Some n \<Rightarrow> n | None \<Rightarrow> ''tool'')"

text \<open>
  The identifier of a merged call: the last identifier supplied; when no fragment
  supplies one, the identifier field of the first fragment if it has one (it is then the
  empty string), and otherwise \<open>tool_call_\<close> followed by the index.
\<close>

definition merged_id :: "int \<Rightarrow> ToolCallDelta list \<Rightarrow> string" where
  "merged_id i frs =
     (case last_supplied (map call_id frs) of
        Some s \<Rightarrow> s
      | None \<Rightarrow> (case frs of
                  [] \<Rightarrow> ''tool_call_'' @ string_of_int i
                | c # _ \<Rightarrow> (case call_id c of
                             Some s \<Rightarrow> s
                           | None \<Rightarrow> ''tool_call_'' @ string_of_int i)))"

definition merged_input :: "(string \<Rightarrow> json option) \<Rightarrow> string \<Rightarrow> json" where
  "merged_input parse buffer =
     (if trim buffer = [] then JObject []
      else (case parse buffer of
              None \<Rightarrow> JObject [(''_raw'', JString buffer)]
            | Some v \<Rightarrow> v))"

definition merged_event :: "(string \<Rightarrow> json option) \<Rightarrow> int \<Rightarrow> ToolCallDelta list \<Rightarrow> QwenStreamEvent" where
  "merged_event parse i frs =
     ToolCall (merged_id i frs) (merged_name frs) (merged_input parse (merged_arguments frs))"

text \<open>The state of one index's accumulator after a list of fragments of that index.\<close>

fun merge_all :: "Accumulator option \<Rightarrow> int \<Rightarrow> ToolCallDelta list \<Rightarrow> Accumulator option" where
  "merge_all a i [] = a"
| "merge_all a i (c # cs) =
     merge_all (Some (merge_fragment (case a of Some e \<Rightarrow> e | None \<Rightarrow> fresh_accumulator i c) c)) i cs"

text \<open>
  The double quote, chunks that carry one tool-call fragment or one piece of text, and
  the three deltas of the specification's example.
\<close>

definition dq :: char where
  "dq = CHR 0x22"

definition fragment_of :: "int \<Rightarrow> string option \<Rightarrow> string option \<Rightarrow> string option \<Rightarrow> Chunk" where
  "fragment_of i ident nm args =
     \<lparr> choices = [\<lparr> delta = Some \<lparr> content = None,
         tool_calls = Some [\<lparr> call_index = Some i, call_id = ident,
                              call_function = Some \<lparr> fn_name = nm, fn_arguments = args \<rparr> \<rparr>] \<rparr> \<rparr>] \<rparr>"

definition text_chunk :: "string \<Rightarrow> Chunk" where
  "text_chunk s = \<lparr> choices = [\<lparr> delta = Some \<lparr> content = Some s, tool_calls = None \<rparr> \<rparr>] \<rparr>"

definition tool_chunk :: "ToolCallDelta list \<Rightarrow> Chunk" where
  "tool_chunk calls = \<lparr> choices = [\<lparr> delta = Some \<lparr> content = None, tool_calls = Some calls \<rparr> \<rparr>] \<rparr>"

definition fragment :: "int option \<Rightarrow> string option \<Rightarrow> string option \<Rightarrow> string option \<Rightarrow> ToolCallDelta" where
  "fragment i ident nm args =
     \<lparr> call_index = i, call_id = ident,
       call_function = Some \<lparr> fn_name = nm, fn_arguments = args \<rparr> \<rparr>"

text \<open>
  A stream of six chunks with text between the fragments of three tool calls: the
  fragments of index 2 arrive first, two chunks carry two fragments each, one fragment
  has no index (it belongs to index 0) and an empty identifier (it supplies none), index 1
  receives two identifiers and two names and index 2 no identifier, the pieces of index 0
  add up to \<open>{"a":1}\<close> and those of index 1 to \<open>{not json\<close>, and the last chunk
  carries an empty text.
\<close>

definition mixed_deltas :: "Chunk list" where
  "mixed_deltas =
     [tool_chunk [fragment (Some 2) None (Some ''third'') None,
                  fragment (Some 0) (Some ''call_a'') None (Some (''{'' @ [dq] @ ''a'' @ [dq] @ '':''))],
      text_chunk ''Hel'',
      tool_chunk [fragment (Some 1) (Some ''x'') (Some ''draft'') (Some ''{not''),
                  fragment None (Some []) (Some ''first'') (Some ''1}'')],
      text_chunk ''lo'',
      tool_chunk [fragment (Some 1) (Some ''call_b'') (Some ''second'') (Some '' json'')],
      text_chunk []]"

definition example_deltas :: "Chunk list" where
  "example_deltas =
     [fragment_of 0 None None (Some (''{'' @ [dq] @ ''a'' @ [dq] @ '':'')),
      fragment_of 0 None None (Some ''1}''),
      fragment_of 0 None (Some ''foo'') None]"

definition example_arguments :: string where
  "example_arguments = ''{'' @ [dq] @ ''a'' @ [dq] @ '':1}''"

text \<open>
  A parser for the examples: it returns the object \<open>{a: 1}\<close> for the document above and
  rejects every other string. It agrees with \<open>JSON.parse\<close> on the strings the examples
  hand to it (the document, the empty string and \<open>{not json\<close>).
\<close>

definition example_parse :: "string \<Rightarrow> json option" where
  "example_parse s = (if s = example_arguments then Some (JObject [(''a'', JNumber 1)]) else None)"

section \<open>Credentials, refresh and logout (auth.ts)\<close>

text \<open>\<open>QwenCredentials\<close> and \<open>QwenTokenResponse\<close> of types.ts; times are milliseconds.\<close>

record QwenCredentials =
  accessToken :: string
  refreshToken :: string
  expiresAt :: int
  resourceUrl :: "string option"
  tokenType :: "string option"

record QwenTokenResponse =
  access_token :: string
  refresh_token :: "string option"
  expires_in :: int
  token_type :: string
  resource_url :: "string option"

text \<open>
  What the code throws: \<open>new Error(message)\<close> with the message of the source, or an
  exception of the platform (a rejected \<open>fetch\<close>, a body that is not JSON, a storage
  operation that fails), named by its code.
\<close>

datatype error =
    Error string
  | Rejected string

text \<open>
  A \<open>fetch\<close> response: \<open>ok\<close> is derived from the status, and \<open>body_json\<close> is the
  body as the source casts it after parsing, \<open>None\<close> when the body is not JSON.
\<close>

record 'b Response =
  status :: nat
  statusText :: string
  responseText :: string
  body_json :: "'b option"

definition ok :: "'b Response \<Rightarrow> bool" where
  "ok response = (200 \<le> status response \<and> status response \<le> 299)"

definition TOKEN_REFRESH_BUFFER :: int where
  "TOKEN_REFRESH_BUFFER = 30 * 1000"

text \<open>
  The handler's fields together with the two stores it writes: the secret vault
  (\<open>secretStorage\<close> is \<open>None\<close> while no vault has been injected; the vault holds at most
  one credential under \<open>SECRET_STORAGE_KEY\<close>) and the file at \<open>CREDENTIALS_PATH\<close>.
  A stored credential stands for its JSON text. \<open>requests\<close> logs the network calls.
\<close>

datatype SecretStorage = SecretStorage (stored: "QwenCredentials option")

datatype NetworkCall = RefreshTokenGrant string

record QwenAuthHandler =
  credentials :: "QwenCredentials option"
  secretStorage :: "SecretStorage option"
  credentialsFile :: "QwenCredentials option"
  requests :: "NetworkCall list"

text \<open>
  What a call meets outside the handler: the two readings of \<open>Date.now()\<close> (lines 125
  and 157), the outcome of the \<open>fetch\<close> of line 139, and the failure, if any, of the
  storage operation.
\<close>

record Env =
  now_at_check :: int
  refresh_fetch :: "error + QwenTokenResponse Response"
  now_at_response :: int
  storage_fault :: "error option"

text \<open>Lines 101-115.\<close>

definition saveCredentials :: "Env \<Rightarrow> QwenCredentials \<Rightarrow> QwenAuthHandler \<Rightarrow> (error + unit) \<times> QwenAuthHandler" where
  "saveCredentials env creds h =
     (case storage_fault env of
        Some e \<Rightarrow> (Inl e, h)
      | None \<Rightarrow>
          (Inr (),
           (case secretStorage h of
              Some _ \<Rightarrow> h\<lparr>secretStorage := Some (SecretStorage (Some creds))\<rparr>
            | None \<Rightarrow> h\<lparr>credentialsFile := Some creds\<rparr>)
           \<lparr>credentials := Some creds\<rparr>))"

text \<open>Lines 133-172.\<close>

definition refreshAccessToken :: "Env \<Rightarrow> QwenAuthHandler \<Rightarrow> (error + unit) \<times> QwenAuthHandler" where
  "refreshAccessToken env h =
     (case credentials h of
        None \<Rightarrow> (Inl (Error ''Cannot refresh: no credentials stored''), h)
      | Some c \<Rightarrow>
          (let h1 = h\<lparr>requests := requests h @ [RefreshTokenGrant (refreshToken c)]\<rparr>
           in case refresh_fetch env of
                Inl e \<Rightarrow> (Inl e, h1)
              | Inr response \<Rightarrow>
                  if \<not> ok response
                  then (Inl (Error (''Token refresh failed: '' @ statusText response)), h1)
                  else (case body_json response of
                          None \<Rightarrow> (Inl (Rejected ''SyntaxError''), h1)
                        | Some data \<Rightarrow>
                            (let updated =
                                   \<lparr> accessToken = access_token data,
                                     refreshToken = (if truthy (refresh_token data)
                                                     then the (refresh_token data)
                                                     else refreshToken c),
                                     expiresAt = now_at_response env + expires_in data * 1000,
                                     resourceUrl = resource_url data,
                                     tokenType = Some (token_type data) \<rparr>
                             in saveCredentials env updated h1))))"

text \<open>Lines 117-131.\<close>

definition getValidAccessToken :: "Env \<Rightarrow> QwenAuthHandler \<Rightarrow> (error + string) \<times> QwenAuthHandler" where
  "getValidAccessToken env h =
     (case credentials h of
        None \<Rightarrow> (Inl (Error ''No credentials found. Please authenticate first.''), h)
      | Some c \<Rightarrow>
          if accessToken c = [] \<or> length (trim (accessToken c)) = 0
          then (Inl (Error ''Access token is empty. Please authenticate again.''), h)
          else if expiresAt c - now_at_check env < TOKEN_REFRESH_BUFFER
          then (case refreshAccessToken env h of
                  (Inl e, h') \<Rightarrow> (Inl e, h')
                | (Inr _, h') \<Rightarrow>
                    (case credentials h' of
                       None \<Rightarrow> (Inl (Rejected ''TypeError''), h')
                     | Some c' \<Rightarrow> (Inr (accessToken c'), h')))
          else (Inr (accessToken c), h))"

text \<open>
  Lines 181-194. \<open>fs.unlink\<close> fails with \<open>ENOENT\<close> when the file is not there; any
  failure inside the \<open>try\<close> skips the reset of \<open>this.credentials\<close> and is swallowed by
  the \<open>catch\<close>.
\<close>

definition delete_record :: "Env \<Rightarrow> QwenAuthHandler \<Rightarrow> (error + unit) \<times> QwenAuthHandler" where
  "delete_record env h =
     (case storage_fault env of
        Some e \<Rightarrow> (Inl e, h)
      | None \<Rightarrow>
          (case secretStorage h of
             Some _ \<Rightarrow> (Inr (), h\<lparr>secretStorage := Some (SecretStorage None)\<rparr>)
           | None \<Rightarrow>
               (case credentialsFile h of
                  None \<Rightarrow> (Inl (Rejected ''ENOENT''), h)
                | Some _ \<Rightarrow> (Inr (), h\<lparr>credentialsFile := None\<rparr>))))"

definition clearCredentials :: "Env \<Rightarrow> QwenAuthHandler \<Rightarrow> (error + unit) \<times> QwenAuthHandler" where
  "clearCredentials env h =
     (case delete_record env h of
        (Inr _, h') \<Rightarrow> (Inr (), h'\<lparr>credentials := None\<rparr>)
      | (Inl _, h') \<Rightarrow> (Inr (), h'))"

text \<open>Lines 196-202.\<close>

definition isAuthenticated :: "QwenAuthHandler \<Rightarrow> bool" where
  "isAuthenticated h =
     (case credentials h of None \<Rightarrow> False | Some c \<Rightarrow> length (trim (accessToken c)) > 0)"

section \<open>The device polling loop (auth.ts, startDeviceFlow)\<close>

record DeviceAuthorizationData =
  device_code :: string
  user_code :: string
  verification_uri :: string
  verification_uri_complete :: string
  device_expires_in :: int

text \<open>
  \<open>DeviceTokenSuccess | DeviceTokenPending | OAuthErrorResponse\<close>, and a JSON object
  that is none of them. The type guards of lines 51-67 test which fields are there.
\<close>

datatype TokenResponse =
    DeviceTokenSuccess (token: QwenTokenResponse)
  | DeviceTokenPending (slowDown: "bool option")
  | OAuthErrorResponse (oauth_error: string) (error_description: "string option")
  | Unrecognised

definition isDeviceTokenPending :: "TokenResponse \<Rightarrow> bool" where
  "isDeviceTokenPending response = (case response of DeviceTokenPending _ \<Rightarrow> True | _ \<Rightarrow> False)"

definition isDeviceTokenError :: "TokenResponse \<Rightarrow> bool" where
  "isDeviceTokenError response = (case response of OAuthErrorResponse _ _ \<Rightarrow> True | _ \<Rightarrow> False)"

definition isDeviceTokenSuccess :: "TokenResponse \<Rightarrow> bool" where
  "isDeviceTokenSuccess response = (case response of DeviceTokenSuccess _ \<Rightarrow> True | _ \<Rightarrow> False)"

text \<open>Lines 327-346 of \<open>pollDeviceToken\<close>: what it makes of the response.\<close>

definition error_code :: "TokenResponse \<Rightarrow> string option" where
  "error_code errorData = (case errorData of OAuthErrorResponse e _ \<Rightarrow> Some e | _ \<Rightarrow> None)"

definition pollDeviceToken :: "TokenResponse Response \<Rightarrow> error + TokenResponse" where
  "pollDeviceToken response =
     (if \<not> ok response
      then (case body_json response of
              None \<Rightarrow>
                Inl (Error (''Device token poll failed: '' @ string_of_int (int (status response))
                            @ '' '' @ statusText response @ ''. '' @ responseText response))
            | Some errorData \<Rightarrow>
                if status response = 400 \<and> error_code errorData = Some ''authorization_pending''
                then Inr (DeviceTokenPending None)
                else if status response = 429 \<and> error_code errorData = Some ''slow_down''
                then Inr (DeviceTokenPending (Some True))
                else Inr errorData)
      else (case body_json response of
              None \<Rightarrow> Inl (Rejected ''SyntaxError'')
            | Some body \<Rightarrow> Inr body))"

text \<open>
  The cancellation token: \<open>cancelAt\<close> is the time at which cancellation is requested,
  \<open>None\<close> when it never is or no token was passed.
\<close>

definition isCancellationRequested :: "int option \<Rightarrow> int \<Rightarrow> bool" where
  "isCancellationRequested cancelAt now = (case cancelAt of None \<Rightarrow> False | Some tc \<Rightarrow> tc \<le> now)"

text \<open>
  Lines 371-385: the time at which \<open>sleep(ms, cancellationToken)\<close> resolves when it is
  called at \<open>now\<close>: at once for \<open>ms \<le> 0\<close>, when the timer fires, or as soon as
  cancellation is requested (at once when it already has been).
\<close>

definition sleep :: "int \<Rightarrow> int option \<Rightarrow> int \<Rightarrow> int" where
  "sleep ms cancelAt now =
     (if ms \<le> 0 then now
      else (case cancelAt of
              None \<Rightarrow> now + ms
            | Some tc \<Rightarrow> if tc < now + ms then max now tc else now + ms))"

text \<open>
  The loop's variables and what it has done so far: \<open>clock\<close> is \<open>Date.now()\<close>, and
  \<open>effects\<close> lists the polls of the token endpoint and the waits, with the interval
  each wait was given.
\<close>

datatype Effect = Fetch | Sleep int

record LoopState =
  clock :: int
  pollIntervalMs :: int
  effects :: "Effect list"

text \<open>
  The server and the network: for each poll, in order, the time the round trip takes and
  the outcome of \<open>fetch\<close>. When the list is used up the next \<open>fetch\<close> never completes,
  and the loop does not return (\<open>None\<close>).
\<close>

record PollReply =
  latency :: nat
  reply :: "error + TokenResponse Response"

text \<open>Lines 240-276.\<close>

fun poll_loop :: "int option \<Rightarrow> int \<Rightarrow> int \<Rightarrow> PollReply list \<Rightarrow> LoopState
                  \<Rightarrow> (error + QwenCredentials) option \<times> LoopState" where
  "poll_loop cancelAt pollStart timeoutMs replies st =
     (if clock st - pollStart < timeoutMs
      then
        if isCancellationRequested cancelAt (clock st)
        then (Some (Inl (Error ''Authentication cancelled.'')), st)
        else
          (case replies of
             [] \<Rightarrow> (None, st\<lparr>effects := effects st @ [Fetch]\<rparr>)
           | r # rest \<Rightarrow>
               (let st1 = st\<lparr>clock := clock st + int (latency r), effects := effects st @ [Fetch]\<rparr>
                in case (case reply r of Inl e \<Rightarrow> Inl e | Inr response \<Rightarrow> pollDeviceToken response) of
                     Inl e \<Rightarrow> (Some (Inl e), st1)
                   | Inr tokenResponse \<Rightarrow>
                       if isDeviceTokenPending tokenResponse
                       then
                         (let interval = (if slowDown tokenResponse = Some True
                                          then min ((pollIntervalMs st1 * 3) div 2) 10000
                                          else pollIntervalMs st1)
                          in poll_loop cancelAt pollStart timeoutMs rest
                               (st1\<lparr>pollIntervalMs := interval,
                                    clock := sleep interval cancelAt (clock st1),
                                    effects := effects st1 @ [Sleep interval]\<rparr>))
                       else if isDeviceTokenError tokenResponse
                       then (Some (Inl (Error (''Device login failed: '' @ oauth_error tokenResponse
                                  @ (if truthy (error_description tokenResponse)
                                     then '' - '' @ the (error_description tokenResponse) else [])))), st1)
                       else if \<not> isDeviceTokenSuccess tokenResponse
                       then (Some (Inl (Error ''Device login failed: invalid response.'')), st1)
                       else
                         (let t = token tokenResponse
                          in (Some (Inr \<lparr> accessToken = access_token t,
                                           refreshToken = (case refresh_token t of Some s \<Rightarrow> s | None \<Rightarrow> []),
                                           expiresAt = clock st1 + expires_in t * 1000,
                                           resourceUrl = resource_url t,
                                           tokenType = Some (token_type t) \<rparr>), st1))))
      else (Some (Inl (Error ''Authentication timed out. Please try again.'')), st))"

declare poll_loop.simps [simp del]

text \<open>
  Lines 236-276 of \<open>startDeviceFlow\<close>, from the moment the device authorization has been
  obtained: \<open>pollStart\<close> is \<open>Date.now()\<close> at line 236.
\<close>

definition startDeviceFlow :: "int option \<Rightarrow> int \<Rightarrow> DeviceAuthorizationData \<Rightarrow> PollReply list
                               \<Rightarrow> (error + QwenCredentials) option \<times> LoopState" where
  "startDeviceFlow cancelAt pollStart deviceAuth replies =
     poll_loop cancelAt pollStart (device_expires_in deviceAuth * 1000) replies
       \<lparr> clock = pollStart, pollIntervalMs = 2000, effects = [] \<rparr>"

section \<open>What the specification says about refresh and polling\<close>

text \<open>
  The credential a successful refresh is specified to store: the fields of the token
  response, with the old refresh token kept when the response has none or an empty one.
\<close>

definition refreshed_credentials :: "QwenCredentials \<Rightarrow> QwenTokenResponse \<Rightarrow> int \<Rightarrow> QwenCredentials" where
  "refreshed_credentials c data now =
     \<lparr> accessToken = access_token data,
       refreshToken = (case refresh_token data of
                         None \<Rightarrow> refreshToken c
                       | Some s \<Rightarrow> if s = [] then refreshToken c else s),
       expiresAt = now + expires_in data * 1000,
       resourceUrl = resource_url data,
       tokenType = Some (token_type data) \<rparr>"





text \<open>
  The answers of the token endpoint (section 6 of the specification): 400 with
  \<open>authorization_pending\<close>, 429 with \<open>slow_down\<close>, and 200 with a token; \<open>l\<close> is the
  time the round trip takes.
\<close>

definition pending_reply :: "nat \<Rightarrow> PollReply" where
  "pending_reply l =
     \<lparr> latency = l,
       reply = Inr \<lparr> status = 400, statusText = ''Bad Request'', responseText = [],
                      body_json = Some (OAuthErrorResponse ''authorization_pending'' None) \<rparr> \<rparr>"

definition slow_down_reply :: "nat \<Rightarrow> PollReply" where
  "slow_down_reply l =
     \<lparr> latency = l,
       reply = Inr \<lparr> status = 429, statusText = ''Too Many Requests'', responseText = [],
                      body_json = Some (OAuthErrorResponse ''slow_down'' None) \<rparr> \<rparr>"

definition success_reply :: "nat \<Rightarrow> QwenTokenResponse \<Rightarrow> PollReply" where
  "success_reply l t =
     \<lparr> latency = l,
       reply = Inr \<lparr> status = 200, statusText = ''OK'', responseText = [],
                      body_json = Some (DeviceTokenSuccess t) \<rparr> \<rparr>"

text \<open>Sample data for the concrete runs below.\<close>

definition device_authorization :: "int \<Rightarrow> DeviceAuthorizationData" where
  "device_authorization seconds =
     \<lparr> device_code = ''device'', user_code = ''ABCD-1234'',
       verification_uri = ''https://chat.qwen.ai/device'',
       verification_uri_complete = ''https://chat.qwen.ai/device?user_code=ABCD-1234'',
       device_expires_in = seconds \<rparr>"

definition issued_token :: QwenTokenResponse where
  "issued_token =
     \<lparr> access_token = ''new-access'', refresh_token = None, expires_in = 3600,
       token_type = ''Bearer'', resource_url = None \<rparr>"

definition stored_credentials :: QwenCredentials where
  "stored_credentials =
     \<lparr> accessToken = ''old-access'', refreshToken = ''old-refresh'', expiresAt = 1029999,
       resourceUrl = None, tokenType = Some ''Bearer'' \<rparr>"

definition blank_credentials :: QwenCredentials where
  "blank_credentials = stored_credentials\<lparr>accessToken := '' '', expiresAt := 0\<rparr>"

definition file_handler :: QwenAuthHandler where
  "file_handler =
     \<lparr> credentials = Some stored_credentials, secretStorage = None,
       credentialsFile = Some stored_credentials, requests = [] \<rparr>"

definition vault_handler :: QwenAuthHandler where
  "vault_handler =
     \<lparr> credentials = Some stored_credentials,
       secretStorage = Some (SecretStorage (Some stored_credentials)),
       credentialsFile = Some stored_credentials, requests = [] \<rparr>"

definition refresh_env :: Env where
  "refresh_env =
     \<lparr> now_at_check = 1000000,
       refresh_fetch = Inr \<lparr> status = 200, statusText = ''OK'', responseText = [],
                              body_json = Some issued_token \<rparr>,
       now_at_response = 1000250,
       storage_fault = None \<rparr>"

section \<open>Properties of the stream aggregator\<close>

subsection \<open>The loop\<close>

text \<open>The readers of the source agree with the specification's reading of a chunk.\<close>

lemma chunk_text_events:
  "(if truthy (chunk_content c) then [Text (the (chunk_content c))] else []) = map Text (delta_text c)"
  by (simp add: truthy_def chunk_content_def chunk_delta_def delta_text_def
      split: list.splits option.splits)

lemma chunk_fragments:
  "(case chunk_tool_calls c of None \<Rightarrow> m | Some calls \<Rightarrow> foldl accumulate_call m calls)
     = foldl accumulate_call m (delta_fragments c)"
  by (simp add: chunk_tool_calls_def chunk_delta_def delta_fragments_def
      split: list.splits option.splits)

lemma fragment_index_eq: "fragment_index c = index_of c"
  by (simp add: fragment_index_def index_of_def split: option.splits)

lemma truthy_eq: "truthy x = supplied x"
  by (simp add: truthy_def supplied_def split: option.splits)

lemma consume_chunk_eq:
  "consume_chunk m c = (map Text (delta_text c), foldl accumulate_call m (delta_fragments c))"
  unfolding consume_chunk_def chunk_text_events chunk_fragments by (rule refl)

lemma consume_stream_snd:
  "snd (consume_stream m chunks) = foldl accumulate_call m (fragments chunks)"
  by (induction chunks arbitrary: m)
     (simp_all add: fragments_def consume_chunk_eq case_prod_beta)

lemma consume_stream_fst:
  "fst (consume_stream m chunks) = map Text (text_deltas chunks)"
  by (induction chunks arbitrary: m)
     (simp_all add: text_deltas_def consume_chunk_eq case_prod_beta)

lemma text_deltas_append: "text_deltas (xs @ ys) = text_deltas xs @ text_deltas ys"
  by (simp add: text_deltas_def)

subsection \<open>The map\<close>

lemma map_of_Map_set: "map_of (Map_set k v m) = (map_of m)(k \<mapsto> v)"
  by (induction m) auto

lemma keys_Map_set:
  "map fst (Map_set k v m) = (if k \<in> fst ` set m then map fst m else map fst m @ [k])"
  by (induction m) auto

lemma Map_get_accumulate_call:
  "Map_get (accumulate_call m c) i =
     (if index_of c = i
      then Some (merge_fragment (case Map_get m i of Some e \<Rightarrow> e | None \<Rightarrow> fresh_accumulator i c) c)
      else Map_get m i)"
  by (auto simp add: accumulate_call_def Map_get_def map_of_Map_set Let_def fragment_index_eq)

lemma Map_get_foldl:
  "Map_get (foldl accumulate_call m frs) i =
     merge_all (Map_get m i) i (filter (\<lambda>c. index_of c = i) frs)"
  by (induction frs arbitrary: m) (simp_all add: Map_get_accumulate_call)

lemma keys_foldl:
  "fst ` set (foldl accumulate_call m frs) = fst ` set m \<union> index_of ` set frs"
proof (induction frs arbitrary: m)
  case Nil
  show ?case by simp
next
  case (Cons c cs)
  have "fst ` set (accumulate_call m c) = insert (index_of c) (fst ` set m)"
    unfolding accumulate_call_def Let_def set_map[symmetric] keys_Map_set fragment_index_eq by auto
  then show ?case using Cons by auto
qed

lemma distinct_foldl:
  "distinct (map fst m) \<Longrightarrow> distinct (map fst (foldl accumulate_call m frs))"
proof (induction frs arbitrary: m)
  case Nil
  then show ?case by simp
next
  case (Cons c cs)
  have "distinct (map fst (accumulate_call m c))"
    using Cons.prems by (simp add: accumulate_call_def Let_def keys_Map_set)
  then show ?case using Cons.IH by simp
qed

subsection \<open>Sorting the entries\<close>

lemma map_insort_key: "map f (insort_key f x xs) = insort (f x) (map f xs)"
  by (induction xs) auto

lemma map_sort_key: "map f (sort_key f xs) = sort (map f xs)"
  by (induction xs) (auto simp: map_insort_key)

lemma entries_by_keys:
  assumes d: "distinct (map fst xs)"
  shows "xs = map (\<lambda>k. (k, the (map_of xs k))) (map fst xs)"
proof -
  have "map (\<lambda>p. (fst p, the (map_of xs (fst p)))) xs = xs"
  proof (rule map_idI)
    fix p assume "p \<in> set xs"
    then have "map_of xs (fst p) = Some (snd p)"
      using map_of_is_SomeI[OF d, of "fst p" "snd p"] by simp
    then show "(fst p, the (map_of xs (fst p))) = p" by simp
  qed
  then show ?thesis by (simp add: comp_def)
qed

lemma keys_ordered_entries:
  fixes m :: ToolCallMap
  assumes "distinct (map fst m)"
  shows "map fst (ordered_entries m) = sorted_list_of_set (fst ` set m)"
proof -
  have "sorted_list_of_set (set (map fst m)) = sort (remdups (map fst m))"
    by (rule sorted_list_of_set_sort_remdups)
  then show ?thesis
    using assms by (simp add: ordered_entries_def map_sort_key distinct_remdups_id)
qed

lemma ordered_entries_by_keys:
  fixes m :: ToolCallMap
  assumes "distinct (map fst m)"
  shows "ordered_entries m = map (\<lambda>k. (k, the (Map_get m k))) (sorted_list_of_set (fst ` set m))"
proof -
  have keys: "map fst (ordered_entries m) = sorted_list_of_set (fst ` set m)"
    by (rule keys_ordered_entries[OF assms])
  have d: "distinct (map fst (ordered_entries m))"
    by (simp add: keys)
  have "map_of (ordered_entries m) = map_of m"
    using d assms by (simp add: map_of_inject_set ordered_entries_def)
  then show ?thesis
    using entries_by_keys[OF d] keys by (simp add: Map_get_def)
qed


subsection \<open>Merging the fragments of one index\<close>

lemma last_supplied_Nil: "last_supplied [] = None"
  by (simp add: last_supplied_def)

lemma last_supplied_Cons:
  "last_supplied (x # xs) =
     (case last_supplied xs of Some s \<Rightarrow> Some s | None \<Rightarrow> if supplied x then x else None)"
proof (cases "filter supplied xs")
  case Nil
  then show ?thesis by (simp add: last_supplied_def)
next
  case (Cons y ys)
  have "y \<in> set (filter supplied xs)" using Cons by simp
  then have "last (y # ys) \<in> set (filter supplied xs)"
    using Cons last_in_set[of "y # ys"] by simp
  then have "supplied (last (y # ys))" by simp
  then obtain s where "last (y # ys) = Some s" by (auto simp: supplied_def)
  then show ?thesis using Cons by (simp add: last_supplied_def)
qed

lemma merge_all_Some:
  "merge_all (Some a) i frs =
     Some \<lparr> acc_id = (case last_supplied (map call_id frs) of Some s \<Rightarrow> s | None \<Rightarrow> acc_id a),
            acc_name = (case last_supplied (map name_of frs) of
                          Some n \<Rightarrow> Some n | None \<Rightarrow> acc_name a),
            acc_arguments = acc_arguments a @ merged_arguments frs \<rparr>"
proof (induction frs arbitrary: a)
  case Nil
  show ?case by (simp add: merged_arguments_def last_supplied_Nil)
next
  case (Cons c cs)
  show ?case
    by (simp add: Cons merged_arguments_def merge_fragment_def Let_def truthy_def supplied_def
        function_name_def function_arguments_def name_of_def arguments_of_def
        last_supplied_Cons split: option.splits)
qed

lemma merge_all_None:
  assumes "frs \<noteq> []"
  shows "merge_all None i frs =
     Some \<lparr> acc_id = merged_id i frs,
            acc_name = last_supplied (map name_of frs),
            acc_arguments = merged_arguments frs \<rparr>"
proof (cases frs)
  case Nil
  with assms show ?thesis by simp
next
  case (Cons c cs)
  show ?thesis
    unfolding Cons
    by (simp add: merge_all_Some merged_id_def merged_arguments_def merge_fragment_def
        fresh_accumulator_def Let_def truthy_def supplied_def
        function_name_def function_arguments_def name_of_def arguments_of_def
        last_supplied_Cons split: option.splits)
qed

lemma tool_call_input_eq: "tool_call_input parse buffer = merged_input parse buffer"
  by (simp add: tool_call_input_def merged_input_def split: option.splits)

lemma tool_call_event_merged:
  assumes "frs \<noteq> []"
  shows "tool_call_event parse (the (merge_all None i frs)) = merged_event parse i frs"
  by (simp add: merge_all_None[OF assms] tool_call_event_def merged_event_def merged_name_def
      tool_call_input_eq)

subsection \<open>The events of a whole stream\<close>

lemma finalize_eq:
  "finalize parse m = map (\<lambda>(_, call). tool_call_event parse call) (ordered_entries m)"
  by (cases m) (simp_all add: finalize_def ordered_entries_def)

lemma final_map_keys:
  "fst ` set (snd (consume_stream [] chunks)) = tool_call_indices chunks"
  by (simp add: consume_stream_snd keys_foldl tool_call_indices_def)

lemma final_map_distinct:
  "distinct (map fst (snd (consume_stream [] chunks)))"
  by (simp add: consume_stream_snd distinct_foldl)

lemma final_map_get:
  "Map_get (snd (consume_stream [] chunks)) i = merge_all None i (fragments_at i chunks)"
proof -
  have "Map_get [] i = None" by (simp add: Map_get_def)
  then show ?thesis by (simp add: consume_stream_snd Map_get_foldl fragments_at_def)
qed

lemma streamChatCompletion_unfold:
  "streamChatCompletion parse chunks =
     map Text (text_deltas chunks) @
     map (\<lambda>(_, call). tool_call_event parse call) (ordered_entries (snd (consume_stream [] chunks)))"
  by (simp add: streamChatCompletion_def case_prod_beta consume_stream_fst finalize_eq)

lemma streamChatCompletion_merged:
  "streamChatCompletion parse chunks =
     map Text (text_deltas chunks) @
     map (\<lambda>i. merged_event parse i (fragments_at i chunks))
         (sorted_list_of_set (tool_call_indices chunks))"
proof -
  let ?m = "snd (consume_stream [] chunks)"
  have fin: "finite (tool_call_indices chunks)"
    by (simp add: tool_call_indices_def)
  have "map (\<lambda>(_, call). tool_call_event parse call) (ordered_entries ?m) =
        map (\<lambda>i. tool_call_event parse (the (Map_get ?m i)))
            (sorted_list_of_set (tool_call_indices chunks))"
    by (simp add: ordered_entries_by_keys[OF final_map_distinct] final_map_keys comp_def)
  also have "\<dots> = map (\<lambda>i. merged_event parse i (fragments_at i chunks))
                       (sorted_list_of_set (tool_call_indices chunks))"
  proof (rule map_cong[OF refl])
    fix i assume "i \<in> set (sorted_list_of_set (tool_call_indices chunks))"
    then have "i \<in> tool_call_indices chunks" using fin by simp
    then have "fragments_at i chunks \<noteq> []"
      by (auto simp: tool_call_indices_def fragments_at_def filter_empty_conv)
    then show "tool_call_event parse (the (Map_get ?m i)) =
               merged_event parse i (fragments_at i chunks)"
      by (simp add: final_map_get tool_call_event_merged)
  qed
  finally show ?thesis by (simp add: streamChatCompletion_unfold)
qed

lemma tool_events_of_stream:
  "filter is_tool_call (streamChatCompletion parse chunks) =
     map (\<lambda>(_, call). tool_call_event parse call) (ordered_entries (snd (consume_stream [] chunks)))"
proof -
  have "filter is_tool_call (map Text xs) = []" for xs
    by (induction xs) simp_all
  moreover have "filter is_tool_call (map (\<lambda>(_, call). tool_call_event parse call) es) =
                 map (\<lambda>(_, call). tool_call_event parse call) es" for es :: ToolCallMap
    by (induction es) (auto simp: tool_call_event_def)
  ultimately show ?thesis by (simp add: streamChatCompletion_unfold)
qed

lemmas aggregator_defs =
  streamChatCompletion_def finalize_def ordered_entries_def tool_call_event_def tool_call_input_def
  consume_chunk_def chunk_content_def chunk_tool_calls_def chunk_delta_def accumulate_call_def
  merge_fragment_def fresh_accumulator_def function_name_def function_arguments_def
  fragment_index_def Map_get_def truthy_def trim_def is_whitespace_def string_of_int_def
  string_of_nat.simps digit_char_def example_deltas_def example_arguments_def fragment_of_def
  example_parse_def text_chunk_def tool_chunk_def fragment_def mixed_deltas_def dq_def Let_def

lemmas specification_defs =
  text_deltas_def delta_text_def fragments_def delta_fragments_def fragments_at_def
  tool_call_indices_def index_of_def name_of_def arguments_of_def supplied_def last_supplied_def
  merged_arguments_def merged_name_def merged_id_def merged_input_def merged_event_def
  trim_def is_whitespace_def string_of_int_def string_of_nat.simps digit_char_def
  example_arguments_def example_parse_def text_chunk_def tool_chunk_def fragment_def
  mixed_deltas_def dq_def

text \<open>What the specification's notions are on the stream of six chunks.\<close>

lemma mixed_deltas_texts: "text_deltas mixed_deltas = [''Hel'', ''lo'']"
  by (simp add: specification_defs)

lemma mixed_deltas_texts_after_three: "text_deltas (take 3 mixed_deltas) = [''Hel'']"
  by (simp add: specification_defs)

lemma mixed_deltas_indices: "sorted_list_of_set (tool_call_indices mixed_deltas) = [0, 1, 2]"
proof -
  have "tool_call_indices mixed_deltas = {0, 1, 2}"
    by (auto simp add: specification_defs)
  also have "\<dots> = set [0, 1, 2]"
    by simp
  finally show ?thesis
    by (simp only: sorted_list_of_set_sort_remdups) simp
qed

lemma mixed_deltas_events:
  "merged_event example_parse 0 (fragments_at 0 mixed_deltas)
     = ToolCall ''call_a'' ''first'' (JObject [(''a'', JNumber 1)])"
  "merged_event example_parse 1 (fragments_at 1 mixed_deltas)
     = ToolCall ''call_b'' ''second'' (JObject [(''_raw'', JString ''{not json'')])"
  "merged_event example_parse 2 (fragments_at 2 mixed_deltas)
     = ToolCall ''tool_call_2'' ''third'' (JObject [])"
  by (simp_all add: specification_defs)

subsection \<open>The claims about the aggregator\<close>

text \<open>
  C1. The fragments of one index are merged whatever else arrives in between: the events
  of a stream are its texts followed, for each index that occurs and in ascending order,
  by the tool call that carries the last identifier and the last name a fragment of that
  index supplied (a fragment supplies a field when the field is a non-empty string) and
  the input read from the concatenation, in arrival order, of the argument pieces of the
  fragments of that index. For the three deltas of the example, with a parser that reads
  the document \<open>{"a":1}\<close> as \<open>{a: 1}\<close>, the generator yields exactly one event, the
  tool call \<open>foo\<close> with input \<open>{a: 1}\<close>. On the stream of six chunks the three calls
  come out merged per index: \<open>call_a\<close> with the two pieces of index 0, \<open>call_b\<close>
  and \<open>second\<close> (the later of two identifiers and of two names) with the two pieces
  of index 1, and \<open>tool_call_2\<close>.
\<close>

theorem fragments_merged_per_index:
  "streamChatCompletion parse chunks =
     map Text (text_deltas chunks) @
     map (\<lambda>i. ToolCall (merged_id i (fragments_at i chunks))
                        (merged_name (fragments_at i chunks))
                        (merged_input parse (merged_arguments (fragments_at i chunks))))
         (sorted_list_of_set (tool_call_indices chunks))
   \<and> (last_supplied (map call_id (fragments_at i chunks)) = Some s
        \<longrightarrow> merged_id i (fragments_at i chunks) = s)
   \<and> (last_supplied (map name_of (fragments_at i chunks)) = Some n
        \<longrightarrow> merged_name (fragments_at i chunks) = n)
   \<and> (parse example_arguments = Some (JObject [(''a'', JNumber 1)])
        \<longrightarrow> streamChatCompletion parse example_deltas =
              [ToolCall ''tool_call_0'' ''foo'' (JObject [(''a'', JNumber 1)])])
   \<and> streamChatCompletion example_parse mixed_deltas
       = [Text ''Hel'', Text ''lo'',
          ToolCall ''call_a'' ''first'' (JObject [(''a'', JNumber 1)]),
          ToolCall ''call_b'' ''second'' (JObject [(''_raw'', JString ''{not json'')]),
          ToolCall ''tool_call_2'' ''third'' (JObject [])]"
proof -
  have example: "streamChatCompletion parse example_deltas =
          [ToolCall ''tool_call_0'' ''foo'' (JObject [(''a'', JNumber 1)])]"
    if "parse example_arguments = Some (JObject [(''a'', JNumber 1)])"
    using that by (simp add: aggregator_defs)
  have run: "streamChatCompletion example_parse mixed_deltas
       = [Text ''Hel'', Text ''lo'',
          ToolCall ''call_a'' ''first'' (JObject [(''a'', JNumber 1)]),
          ToolCall ''call_b'' ''second'' (JObject [(''_raw'', JString ''{not json'')]),
          ToolCall ''tool_call_2'' ''third'' (JObject [])]"
    by (simp add: aggregator_defs)
  have general: "streamChatCompletion parse chunks =
     map Text (text_deltas chunks) @
     map (\<lambda>i. ToolCall (merged_id i (fragments_at i chunks))
                        (merged_name (fragments_at i chunks))
                        (merged_input parse (merged_arguments (fragments_at i chunks))))
         (sorted_list_of_set (tool_call_indices chunks))"
    using streamChatCompletion_merged[of parse chunks] by (simp add: merged_event_def)
  show ?thesis
    using general example run by (simp add: merged_id_def merged_name_def)
qed

theorem fragments_merged_per_index_witness:
  "last_supplied (map call_id (fragments_at 1 mixed_deltas)) = Some ''call_b''
   \<and> last_supplied (map name_of (fragments_at 1 mixed_deltas)) = Some ''second''
   \<and> example_parse example_arguments = Some (JObject [(''a'', JNumber 1)])
   \<and> map call_id (fragments_at 1 mixed_deltas) = [Some ''x'', Some ''call_b'']
   \<and> map name_of (fragments_at 1 mixed_deltas) = [Some ''draft'', Some ''second'']
   \<and> map call_id (fragments_at 0 mixed_deltas) = [Some ''call_a'', Some []]
   \<and> merged_arguments (fragments_at 0 mixed_deltas) = example_arguments
   \<and> streamChatCompletion example_parse mixed_deltas
       = [Text ''Hel'', Text ''lo'',
          ToolCall ''call_a'' ''first'' (JObject [(''a'', JNumber 1)]),
          ToolCall ''call_b'' ''second'' (JObject [(''_raw'', JString ''{not json'')]),
          ToolCall ''tool_call_2'' ''third'' (JObject [])]
   \<and> streamChatCompletion example_parse example_deltas =
        [ToolCall ''tool_call_0'' ''foo'' (JObject [(''a'', JNumber 1)])]"
proof -
  have h1: "last_supplied (map call_id (fragments_at 1 mixed_deltas)) = Some ''call_b''"
    by (simp add: specification_defs)
  have h2: "last_supplied (map name_of (fragments_at 1 mixed_deltas)) = Some ''second''"
    by (simp add: specification_defs)
  have h3: "example_parse example_arguments = Some (JObject [(''a'', JNumber 1)])"
    by (simp add: example_parse_def)
  have ids: "map call_id (fragments_at 1 mixed_deltas) = [Some ''x'', Some ''call_b'']"
    by (simp add: specification_defs)
  have args: "merged_arguments (fragments_at 0 mixed_deltas) = example_arguments"
    by (simp add: specification_defs)
  have names: "map name_of (fragments_at 1 mixed_deltas) = [Some ''draft'', Some ''second'']"
    by (simp add: specification_defs)
  have ids0: "map call_id (fragments_at 0 mixed_deltas) = [Some ''call_a'', Some []]"
    by (simp add: specification_defs)
  note inst = fragments_merged_per_index[of example_parse mixed_deltas 1 "''call_b''" "''second''"]
  have run: "streamChatCompletion example_parse mixed_deltas
       = [Text ''Hel'', Text ''lo'',
          ToolCall ''call_a'' ''first'' (JObject [(''a'', JNumber 1)]),
          ToolCall ''call_b'' ''second'' (JObject [(''_raw'', JString ''{not json'')]),
          ToolCall ''tool_call_2'' ''third'' (JObject [])]"
    using inst mixed_deltas_events
    by (simp add: mixed_deltas_texts mixed_deltas_indices merged_event_def)
  have example: "streamChatCompletion example_parse example_deltas =
        [ToolCall ''tool_call_0'' ''foo'' (JObject [(''a'', JNumber 1)])]"
    using inst h3 by blast
  show ?thesis
    using h1 h2 h3 ids names ids0 args run example by (intro conjI)
qed

text \<open>
  C2. While the stream is being consumed the generator yields text events only, one for
  each delta with content, in arrival order: after any number \<open>n\<close> of chunks the events
  yielded so far are the texts of those chunks and contain no tool call, and they are
  the beginning of what the generator yields in the end. The tool calls follow once the
  stream has ended, one for each index that occurs in the stream, in ascending order of
  the index whatever the order in which the fragments arrived; the keys of the source's
  \<open>ordered\<close> array are that ascending list. On the stream of six chunks: after three
  chunks only the first text has been yielded, and in the end the two texts are followed
  by the calls of the indices 0, 1 and 2, although the fragments of index 2 came first.
\<close>

theorem events_in_order:
  "fst (consume_stream [] (take n chunks)) = map Text (text_deltas (take n chunks))
   \<and> filter is_tool_call (fst (consume_stream [] (take n chunks))) = []
   \<and> prefix (fst (consume_stream [] (take n chunks))) (streamChatCompletion parse chunks)
   \<and> streamChatCompletion parse chunks =
       map Text (text_deltas chunks) @
       map (\<lambda>i. merged_event parse i (fragments_at i chunks))
           (sorted_list_of_set (tool_call_indices chunks))
   \<and> map fst (ordered_entries (snd (consume_stream [] chunks))) =
       sorted_list_of_set (tool_call_indices chunks)
   \<and> fst (consume_stream [] (take 3 mixed_deltas)) = [Text ''Hel'']
   \<and> streamChatCompletion example_parse mixed_deltas
       = [Text ''Hel'', Text ''lo'',
          ToolCall ''call_a'' ''first'' (JObject [(''a'', JNumber 1)]),
          ToolCall ''call_b'' ''second'' (JObject [(''_raw'', JString ''{not json'')]),
          ToolCall ''tool_call_2'' ''third'' (JObject [])]"
proof -
  have texts: "fst (consume_stream [] (take n chunks)) = map Text (text_deltas (take n chunks))"
    by (rule consume_stream_fst)
  have none: "filter is_tool_call (map Text xs) = []" for xs
    by (induction xs) simp_all
  have "text_deltas chunks = text_deltas (take n chunks) @ text_deltas (drop n chunks)"
    using text_deltas_append[of "take n chunks" "drop n chunks"] by simp
  then have pre: "prefix (fst (consume_stream [] (take n chunks))) (streamChatCompletion parse chunks)"
    by (simp add: texts streamChatCompletion_unfold prefix_def)
  have keys: "map fst (ordered_entries (snd (consume_stream [] chunks))) =
              sorted_list_of_set (tool_call_indices chunks)"
    using keys_ordered_entries[OF final_map_distinct] by (simp add: final_map_keys)
  have three: "fst (consume_stream [] (take 3 mixed_deltas)) = [Text ''Hel'']"
    by (simp add: aggregator_defs)
  have run: "streamChatCompletion example_parse mixed_deltas
       = [Text ''Hel'', Text ''lo'',
          ToolCall ''call_a'' ''first'' (JObject [(''a'', JNumber 1)]),
          ToolCall ''call_b'' ''second'' (JObject [(''_raw'', JString ''{not json'')]),
          ToolCall ''tool_call_2'' ''third'' (JObject [])]"
    by (simp add: aggregator_defs)
  show ?thesis
    using texts pre keys three run streamChatCompletion_merged[of parse chunks]
    by (simp add: none)
qed

text \<open>
  The general part of C2 applied to the stream of six chunks gives the same run.
\<close>

theorem events_in_order_witness:
  "fst (consume_stream [] (take 3 mixed_deltas)) = [Text ''Hel'']
   \<and> filter is_tool_call (fst (consume_stream [] (take 3 mixed_deltas))) = []
   \<and> streamChatCompletion example_parse mixed_deltas
       = [Text ''Hel'', Text ''lo'',
          ToolCall ''call_a'' ''first'' (JObject [(''a'', JNumber 1)]),
          ToolCall ''call_b'' ''second'' (JObject [(''_raw'', JString ''{not json'')]),
          ToolCall ''tool_call_2'' ''third'' (JObject [])]
   \<and> map fst (ordered_entries (snd (consume_stream [] mixed_deltas))) = [0, 1, 2]"
proof -
  note inst = events_in_order[of 3 mixed_deltas example_parse]
  have a: "fst (consume_stream [] (take 3 mixed_deltas)) = [Text ''Hel'']"
    using inst by (simp add: mixed_deltas_texts_after_three)
  have b: "filter is_tool_call (fst (consume_stream [] (take 3 mixed_deltas))) = []"
    using inst by blast
  have c: "streamChatCompletion example_parse mixed_deltas
       = [Text ''Hel'', Text ''lo'',
          ToolCall ''call_a'' ''first'' (JObject [(''a'', JNumber 1)]),
          ToolCall ''call_b'' ''second'' (JObject [(''_raw'', JString ''{not json'')]),
          ToolCall ''tool_call_2'' ''third'' (JObject [])]"
    using inst by blast
  have d: "map fst (ordered_entries (snd (consume_stream [] mixed_deltas))) = [0, 1, 2]"
    using inst by (simp add: mixed_deltas_indices)
  show ?thesis
    using a b c d by (intro conjI)
qed

text \<open>
  A run with text and fragments interleaved, the fragments of index 2 arriving before
  those of index 0: after two chunks only the first text has been yielded; in the end
  the texts come first and the call of index 0 precedes the call of index 2.
\<close>

lemma interleaved_example:
  "fst (consume_stream []
          (take 2 [text_chunk ''Hel'', fragment_of 2 (Some ''b'') (Some ''second'') None,
                   text_chunk ''lo'', fragment_of 0 (Some ''a'') (Some ''first'') None]))
     = [Text ''Hel'']
   \<and> streamChatCompletion example_parse
         [text_chunk ''Hel'', fragment_of 2 (Some ''b'') (Some ''second'') None,
          text_chunk ''lo'', fragment_of 0 (Some ''a'') (Some ''first'') None]
     = [Text ''Hel'', Text ''lo'',
        ToolCall ''a'' ''first'' (JObject []), ToolCall ''b'' ''second'' (JObject [])]"
  by (simp add: aggregator_defs)

text \<open>
  C5, as the specification states it, fails for a blank buffer: a tool call that arrives
  without arguments leaves the buffer empty, the empty string is not a JSON document, and
  the event's input is the empty object, not \<open>{_raw: ""}\<close> (line 103 skips the parse).
\<close>

theorem blank_buffer_counterexample:
  "example_parse (merged_arguments (fragments [fragment_of 0 (Some ''call_1'') (Some ''foo'') (Some [])])) = None
   \<and> streamChatCompletion example_parse [fragment_of 0 (Some ''call_1'') (Some ''foo'') (Some [])]
       = [ToolCall ''call_1'' ''foo'' (JObject [])]
   \<and> JObject [] \<noteq> JObject [(''_raw'', JString (merged_arguments
         (fragments [fragment_of 0 (Some ''call_1'') (Some ''foo'') (Some [])])))]"
  by (simp add: aggregator_defs merged_arguments_def fragments_def delta_fragments_def
      arguments_of_def)

text \<open>
  C5, amended. Every entry of the map yields its tool-call event, whatever the parser
  does, so the generator never stops short. When the argument buffer is not blank and
  \<open>JSON.parse\<close> throws on it, the input of the event is \<open>{_raw: buffer}\<close>; a blank
  buffer is not parsed and gives the empty object; an accumulator without a name gives
  the name \<open>tool\<close>.
\<close>

theorem parse_failure_recovered:
  "filter is_tool_call (streamChatCompletion parse chunks) =
     map (\<lambda>(_, call). tool_call_event parse call) (ordered_entries (snd (consume_stream [] chunks)))
   \<and> length (filter is_tool_call (streamChatCompletion parse chunks)) = card (tool_call_indices chunks)
   \<and> (trim (acc_arguments call) \<noteq> [] \<and> parse (acc_arguments call) = None
        \<longrightarrow> tool_call_event parse call =
              ToolCall (acc_id call) (name (tool_call_event parse call))
                       (JObject [(''_raw'', JString (acc_arguments call))]))
   \<and> (trim (acc_arguments blank) = []
        \<longrightarrow> input (tool_call_event parse blank) = JObject [])
   \<and> (acc_name unnamed = None \<longrightarrow> name (tool_call_event parse unnamed) = ''tool'')"
proof -
  have "length (ordered_entries (snd (consume_stream [] chunks))) =
        length (map fst (ordered_entries (snd (consume_stream [] chunks))))"
    by simp
  also have "\<dots> = length (sorted_list_of_set (tool_call_indices chunks))"
    using keys_ordered_entries[OF final_map_distinct, of chunks] by (simp add: final_map_keys)
  also have "\<dots> = card (tool_call_indices chunks)"
    by simp
  finally have count: "length (ordered_entries (snd (consume_stream [] chunks))) =
                       card (tool_call_indices chunks)" .
  show ?thesis
    using count
    by (simp add: tool_events_of_stream tool_call_event_def tool_call_input_def)
qed

theorem parse_failure_recovered_witness:
  "trim (acc_arguments \<lparr>acc_id = ''call_1'', acc_name = Some ''foo'', acc_arguments = ''{not json''\<rparr>) \<noteq> []
   \<and> example_parse (acc_arguments \<lparr>acc_id = ''call_1'', acc_name = Some ''foo'', acc_arguments = ''{not json''\<rparr>) = None
   \<and> trim (acc_arguments \<lparr>acc_id = ''call_2'', acc_name = Some ''bar'', acc_arguments = '' ''\<rparr>) = []
   \<and> acc_name \<lparr>acc_id = ''call_3'', acc_name = None, acc_arguments = []\<rparr> = None
   \<and> tool_call_event example_parse \<lparr>acc_id = ''call_1'', acc_name = Some ''foo'', acc_arguments = ''{not json''\<rparr>
       = ToolCall ''call_1'' ''foo'' (JObject [(''_raw'', JString ''{not json'')])
   \<and> input (tool_call_event example_parse \<lparr>acc_id = ''call_2'', acc_name = Some ''bar'', acc_arguments = '' ''\<rparr>)
       = JObject []
   \<and> name (tool_call_event example_parse \<lparr>acc_id = ''call_3'', acc_name = None, acc_arguments = []\<rparr>) = ''tool''
   \<and> streamChatCompletion example_parse [fragment_of 0 (Some ''call_1'') (Some ''foo'') (Some ''{not json'')]
       = [ToolCall ''call_1'' ''foo'' (JObject [(''_raw'', JString ''{not json'')])]"
proof -
  have h1: "trim (acc_arguments \<lparr>acc_id = ''call_1'', acc_name = Some ''foo'', acc_arguments = ''{not json''\<rparr>) \<noteq> []"
    by (simp add: trim_def is_whitespace_def)
  have h2: "example_parse (acc_arguments \<lparr>acc_id = ''call_1'', acc_name = Some ''foo'', acc_arguments = ''{not json''\<rparr>) = None"
    by (simp add: example_parse_def example_arguments_def)
  have h3: "trim (acc_arguments \<lparr>acc_id = ''call_2'', acc_name = Some ''bar'', acc_arguments = '' ''\<rparr>) = []"
    by (simp add: trim_def is_whitespace_def)
  have h4: "streamChatCompletion example_parse [fragment_of 0 (Some ''call_1'') (Some ''foo'') (Some ''{not json'')]
              = [ToolCall ''call_1'' ''foo'' (JObject [(''_raw'', JString ''{not json'')])]"
    by (simp add: aggregator_defs)
  have h5: "name (tool_call_event example_parse \<lparr>acc_id = ''call_1'', acc_name = Some ''foo'', acc_arguments = ''{not json''\<rparr>) = ''foo''"
    by (simp add: tool_call_event_def)
  show ?thesis
    using h1 h2 h3 h4 h5
      parse_failure_recovered[of example_parse "[]"
        "\<lparr>acc_id = ''call_1'', acc_name = Some ''foo'', acc_arguments = ''{not json''\<rparr>"
        "\<lparr>acc_id = ''call_2'', acc_name = Some ''bar'', acc_arguments = '' ''\<rparr>"
        "\<lparr>acc_id = ''call_3'', acc_name = None, acc_arguments = []\<rparr>"]
    by simp
qed

text \<open>
  C10. A first fragment whose identifier is the empty string: line 78 keeps it (\<open>??\<close>
  replaces only a missing identifier), line 82 does not overwrite it, and the event is
  emitted with an empty \<open>callId\<close>, where the claim promises \<open>tool_call_0\<close>.
\<close>

theorem empty_first_id_kept:
  "streamChatCompletion parse [fragment_of 0 (Some []) (Some ''foo'') None]
     = [ToolCall [] ''foo'' (JObject [])]"
  by (simp add: aggregator_defs)

section \<open>Properties of the token accessor and of logout\<close>

lemmas auth_defs =
  getValidAccessToken_def refreshAccessToken_def saveCredentials_def clearCredentials_def
  delete_record_def isAuthenticated_def TOKEN_REFRESH_BUFFER_def ok_def truthy_def trim_def
  is_whitespace_def refreshed_credentials_def Let_def

lemmas auth_samples =
  stored_credentials_def blank_credentials_def file_handler_def vault_handler_def
  issued_token_def refresh_env_def

lemma trim_nonempty: "trim s \<noteq> [] \<Longrightarrow> s \<noteq> []"
  by (auto simp: trim_def)

lemma refreshAccessToken_requests:
  assumes "credentials h = Some c"
  shows "requests (snd (refreshAccessToken env h)) = requests h @ [RefreshTokenGrant (refreshToken c)]"
  using assms
  by (simp add: refreshAccessToken_def saveCredentials_def Let_def split: sum.splits option.splits)

text \<open>
  C6. With no credential in the handler the accessor throws ``No credentials found'';
  with a credential whose access token is empty or consists of white space it throws
  ``Access token is empty''. The two errors differ, and in both cases the handler is
  returned as it was: no request has been logged, nothing has been stored.
\<close>

theorem no_token_fails_fast:
  "(credentials h = None \<longrightarrow>
      getValidAccessToken env h = (Inl (Error ''No credentials found. Please authenticate first.''), h))
   \<and> (credentials g = Some c \<and> trim (accessToken c) = [] \<longrightarrow>
      getValidAccessToken env g = (Inl (Error ''Access token is empty. Please authenticate again.''), g))
   \<and> Error ''No credentials found. Please authenticate first.''
       \<noteq> Error ''Access token is empty. Please authenticate again.''"
  by (simp add: getValidAccessToken_def)

theorem no_token_fails_fast_witness:
  "credentials (file_handler\<lparr>credentials := None\<rparr>) = None
   \<and> credentials (file_handler\<lparr>credentials := Some blank_credentials\<rparr>) = Some blank_credentials
   \<and> trim (accessToken blank_credentials) = []
   \<and> getValidAccessToken refresh_env (file_handler\<lparr>credentials := None\<rparr>)
       = (Inl (Error ''No credentials found. Please authenticate first.''),
          file_handler\<lparr>credentials := None\<rparr>)
   \<and> getValidAccessToken refresh_env (file_handler\<lparr>credentials := Some blank_credentials\<rparr>)
       = (Inl (Error ''Access token is empty. Please authenticate again.''),
          file_handler\<lparr>credentials := Some blank_credentials\<rparr>)"
proof -
  have h1: "credentials (file_handler\<lparr>credentials := None\<rparr>) = None"
    by simp
  have h2: "credentials (file_handler\<lparr>credentials := Some blank_credentials\<rparr>) = Some blank_credentials"
    by simp
  have h3: "trim (accessToken blank_credentials) = []"
    by (simp add: blank_credentials_def trim_def is_whitespace_def)
  show ?thesis
    using h1 h2 h3
      no_token_fails_fast[of "file_handler\<lparr>credentials := None\<rparr>" refresh_env
        "file_handler\<lparr>credentials := Some blank_credentials\<rparr>" blank_credentials]
    by simp
qed

text \<open>
  C4. The accessor reaches the expiry check when the handler holds a credential whose
  access token is not blank (otherwise it fails fast, C6). It then sends a refresh request
  if and only if \<open>expiresAt - now < 30000\<close>. At or above the boundary it returns the
  stored token and leaves the handler as it was; below it, it runs
  \<open>refreshAccessToken\<close> first (one request, carrying the stored refresh token) and then
  returns the access token of the handler as the refresh left it, or the error of the
  refresh.
\<close>

theorem refresh_iff_near_expiry:
  assumes "credentials h = Some c" and "trim (accessToken c) \<noteq> []"
  shows "(requests (snd (getValidAccessToken env h)) \<noteq> requests h)
           = (expiresAt c - now_at_check env < 30000)
       \<and> getValidAccessToken env h =
           (if expiresAt c - now_at_check env < 30000
            then (case refreshAccessToken env h of
                    (Inl e, h') \<Rightarrow> (Inl e, h')
                  | (Inr _, h') \<Rightarrow> (Inr (accessToken (the (credentials h'))), h'))
            else (Inr (accessToken c), h))
       \<and> requests (snd (refreshAccessToken env h)) = requests h @ [RefreshTokenGrant (refreshToken c)]"
proof -
  have ne: "accessToken c \<noteq> []"
    using assms(2) by (rule trim_nonempty)
  have r: "requests (snd (refreshAccessToken env h)) = requests h @ [RefreshTokenGrant (refreshToken c)]"
    using assms(1) by (rule refreshAccessToken_requests)
  show ?thesis
    using assms ne r
    by (auto simp add: getValidAccessToken_def TOKEN_REFRESH_BUFFER_def
        refreshAccessToken_def saveCredentials_def Let_def
        split: sum.splits option.splits prod.splits)
qed

theorem refresh_iff_near_expiry_witness:
  "credentials file_handler = Some stored_credentials
   \<and> trim (accessToken stored_credentials) \<noteq> []
   \<and> expiresAt stored_credentials - now_at_check refresh_env = 29999
   \<and> getValidAccessToken refresh_env file_handler
       = (Inr ''new-access'',
          \<lparr> credentials = Some (refreshed_credentials stored_credentials issued_token 1000250),
            secretStorage = None,
            credentialsFile = Some (refreshed_credentials stored_credentials issued_token 1000250),
            requests = [RefreshTokenGrant ''old-refresh''] \<rparr>)
   \<and> expiresAt stored_credentials - now_at_check (refresh_env\<lparr>now_at_check := 999999\<rparr>) = 30000
   \<and> getValidAccessToken (refresh_env\<lparr>now_at_check := 999999\<rparr>) file_handler
       = (Inr ''old-access'', file_handler)"
proof -
  have h1: "credentials file_handler = Some stored_credentials"
    by (simp add: file_handler_def)
  have h2: "trim (accessToken stored_credentials) \<noteq> []"
    by (simp add: stored_credentials_def trim_def is_whitespace_def)
  show ?thesis
    using h1 h2
      refresh_iff_near_expiry[OF h1 h2, of refresh_env]
      refresh_iff_near_expiry[OF h1 h2, of "refresh_env\<lparr>now_at_check := 999999\<rparr>"]
    by (simp add: auth_defs auth_samples)
qed

text \<open>
  C7. When the accessor refreshes and the token endpoint answers with a token, the new
  credential is built from the response (\<open>refreshed_credentials\<close>: the old refresh token
  is kept when the response has none or an empty one) and handed to \<open>saveCredentials\<close>.
  If the store accepts it, the accessor returns the new access token, and the handler it
  leaves behind holds the new credential in memory and in the backend in use (the vault
  if one is configured, the file otherwise). If the store fails, the accessor does not
  return a token: it throws the storage error.
\<close>

theorem refresh_persists_credential:
  assumes "credentials h = Some c" and "trim (accessToken c) \<noteq> []"
    and "expiresAt c - now_at_check env < TOKEN_REFRESH_BUFFER"
    and "refresh_fetch env = Inr response" and "ok response" and "body_json response = Some data"
  shows "case storage_fault env of
           None \<Rightarrow>
             getValidAccessToken env h =
               (Inr (access_token data),
                snd (saveCredentials env (refreshed_credentials c data (now_at_response env))
                       (h\<lparr>requests := requests h @ [RefreshTokenGrant (refreshToken c)]\<rparr>)))
             \<and> credentials (snd (getValidAccessToken env h))
                 = Some (refreshed_credentials c data (now_at_response env))
             \<and> (case secretStorage h of
                  Some _ \<Rightarrow> secretStorage (snd (getValidAccessToken env h))
                             = Some (SecretStorage (Some (refreshed_credentials c data (now_at_response env))))
                | None \<Rightarrow> credentialsFile (snd (getValidAccessToken env h))
                           = Some (refreshed_credentials c data (now_at_response env)))
             \<and> refreshToken (refreshed_credentials c data (now_at_response env))
                 = (if refresh_token data = None \<or> refresh_token data = Some []
                    then refreshToken c else the (refresh_token data))
         | Some e \<Rightarrow> fst (getValidAccessToken env h) = Inl e"
proof -
  have ne: "accessToken c \<noteq> []"
    using assms(2) by (rule trim_nonempty)
  have upd: "\<lparr> accessToken = access_token data,
               refreshToken = (if truthy (refresh_token data) then the (refresh_token data)
                               else refreshToken c),
               expiresAt = now_at_response env + expires_in data * 1000,
               resourceUrl = resource_url data,
               tokenType = Some (token_type data) \<rparr>
             = refreshed_credentials c data (now_at_response env)"
    by (auto simp: refreshed_credentials_def truthy_def split: option.splits)
  have r: "refreshAccessToken env h =
             saveCredentials env (refreshed_credentials c data (now_at_response env))
               (h\<lparr>requests := requests h @ [RefreshTokenGrant (refreshToken c)]\<rparr>)"
    using assms(1,4,5,6) by (simp add: refreshAccessToken_def Let_def upd)
  show ?thesis
    using assms(1,3) ne assms(2) r
    by (auto simp add: getValidAccessToken_def saveCredentials_def refreshed_credentials_def
        split: option.splits)
qed

theorem refresh_persists_credential_witness:
  "credentials vault_handler = Some stored_credentials
   \<and> trim (accessToken stored_credentials) \<noteq> []
   \<and> expiresAt stored_credentials - now_at_check refresh_env < TOKEN_REFRESH_BUFFER
   \<and> refresh_fetch refresh_env
       = Inr \<lparr> status = 200, statusText = ''OK'', responseText = [], body_json = Some issued_token \<rparr>
   \<and> ok \<lparr> status = 200, statusText = ''OK'', responseText = [], body_json = Some issued_token \<rparr>
   \<and> refresh_token issued_token = None
   \<and> getValidAccessToken refresh_env vault_handler
       = (Inr ''new-access'',
          \<lparr> credentials = Some \<lparr> accessToken = ''new-access'', refreshToken = ''old-refresh'',
                                  expiresAt = 4600250, resourceUrl = None,
                                  tokenType = Some ''Bearer'' \<rparr>,
            secretStorage = Some (SecretStorage (Some
                               \<lparr> accessToken = ''new-access'', refreshToken = ''old-refresh'',
                                 expiresAt = 4600250, resourceUrl = None,
                                 tokenType = Some ''Bearer'' \<rparr>)),
            credentialsFile = Some stored_credentials,
            requests = [RefreshTokenGrant ''old-refresh''] \<rparr>)"
proof -
  have h1: "credentials vault_handler = Some stored_credentials"
    by (simp add: vault_handler_def)
  have h2: "trim (accessToken stored_credentials) \<noteq> []"
    by (simp add: stored_credentials_def trim_def is_whitespace_def)
  have h3: "expiresAt stored_credentials - now_at_check refresh_env < TOKEN_REFRESH_BUFFER"
    by (simp add: stored_credentials_def refresh_env_def TOKEN_REFRESH_BUFFER_def)
  have h4: "refresh_fetch refresh_env
       = Inr \<lparr> status = 200, statusText = ''OK'', responseText = [], body_json = Some issued_token \<rparr>"
    by (simp add: refresh_env_def)
  have h5: "ok \<lparr> status = 200, statusText = ''OK'', responseText = [], body_json = Some issued_token \<rparr>"
    by (simp add: ok_def)
  have h6: "body_json \<lparr> status = 200, statusText = ''OK'', responseText = [], body_json = Some issued_token \<rparr>
              = Some issued_token"
    by simp
  show ?thesis
    using h1 h2 h3 h4 h5 refresh_persists_credential[OF h1 h2 h3 h4 h5 h6]
    by (simp add: auth_defs auth_samples)
qed

text \<open>
  C9, as the specification states it, fails when a vault is configured and the file
  exists: \<open>clearCredentials\<close> deletes the vault entry and leaves the file in place.
\<close>

theorem logout_leaves_file_counterexample:
  "clearCredentials refresh_env vault_handler =
     (Inr (), vault_handler\<lparr>secretStorage := Some (SecretStorage None), credentials := None\<rparr>)
   \<and> credentialsFile (snd (clearCredentials refresh_env vault_handler)) = Some stored_credentials"
  by (simp add: auth_defs auth_samples)

text \<open>
  C9, amended. \<open>clearCredentials\<close> never throws, and a second call changes nothing the
  first one left. It clears the record of the backend in use: with a vault configured it
  deletes the vault entry and does not touch the file; without a vault it deletes the
  file when there is one. In both cases, when the deletion does not fail, the credential
  in memory is dropped and \<open>isAuthenticated\<close> is false afterwards.
\<close>

theorem logout_clears_backend:
  "fst (clearCredentials env h) = Inr ()
   \<and> clearCredentials env (snd (clearCredentials env h)) = clearCredentials env h
   \<and> (storage_fault env = None \<and> secretStorage v \<noteq> None \<longrightarrow>
        snd (clearCredentials env v) = v\<lparr>secretStorage := Some (SecretStorage None), credentials := None\<rparr>
        \<and> \<not> isAuthenticated (snd (clearCredentials env v)))
   \<and> (storage_fault env = None \<and> secretStorage f = None \<and> credentialsFile f \<noteq> None \<longrightarrow>
        snd (clearCredentials env f) = f\<lparr>credentialsFile := None, credentials := None\<rparr>
        \<and> \<not> isAuthenticated (snd (clearCredentials env f)))"
  by (auto simp add: clearCredentials_def delete_record_def isAuthenticated_def
      split: option.splits)

theorem logout_clears_backend_witness:
  "storage_fault refresh_env = None
   \<and> secretStorage vault_handler \<noteq> None
   \<and> secretStorage file_handler = None \<and> credentialsFile file_handler \<noteq> None
   \<and> isAuthenticated vault_handler \<and> isAuthenticated file_handler
   \<and> snd (clearCredentials refresh_env vault_handler)
       = \<lparr> credentials = None, secretStorage = Some (SecretStorage None),
           credentialsFile = Some stored_credentials, requests = [] \<rparr>
   \<and> \<not> isAuthenticated (snd (clearCredentials refresh_env vault_handler))
   \<and> snd (clearCredentials refresh_env file_handler)
       = \<lparr> credentials = None, secretStorage = None, credentialsFile = None, requests = [] \<rparr>
   \<and> \<not> isAuthenticated (snd (clearCredentials refresh_env file_handler))
   \<and> clearCredentials refresh_env (snd (clearCredentials refresh_env file_handler))
       = clearCredentials refresh_env file_handler"
proof -
  have h1: "storage_fault refresh_env = None"
    by (simp add: refresh_env_def)
  have h2: "secretStorage vault_handler \<noteq> None"
    by (simp add: vault_handler_def)
  have h3: "secretStorage file_handler = None \<and> credentialsFile file_handler \<noteq> None"
    by (simp add: file_handler_def)
  have h4: "isAuthenticated vault_handler \<and> isAuthenticated file_handler"
    by (simp add: auth_defs auth_samples)
  show ?thesis
    using h1 h2 h3 h4
      logout_clears_backend[of refresh_env file_handler vault_handler file_handler]
    by (simp add: auth_defs auth_samples)
qed

text \<open>
  The case the amended claim leaves out: without a vault and with the file already
  gone, \<open>fs.unlink\<close> fails with \<open>ENOENT\<close>, line 188 is skipped, and the credential
  stays in memory.
\<close>

lemma logout_without_file_keeps_session:
  "isAuthenticated (snd (clearCredentials refresh_env (file_handler\<lparr>credentialsFile := None\<rparr>)))"
  by (simp add: auth_defs auth_samples)

section \<open>Properties of the device polling loop\<close>

lemmas loop_defs =
  startDeviceFlow_def poll_loop.simps pollDeviceToken_def ok_def error_code_def
  isDeviceTokenPending_def isDeviceTokenError_def isDeviceTokenSuccess_def
  isCancellationRequested_def sleep_def truthy_def Let_def
  pending_reply_def slow_down_reply_def success_reply_def device_authorization_def
  issued_token_def









text \<open>
  C8, as the specification states it, fails when the device code expires during the
  wait in which the user cancels: the window is three seconds, the second wait runs from
  2000 to 4000 ms, cancellation is requested at 3500 ms, and the loop ends at 3500 ms
  with the time-out error, not with the cancellation error.
\<close>

theorem cancelled_during_wait_counterexample:
  "startDeviceFlow (Some 3500) 0 (device_authorization 3)
     [pending_reply 0, pending_reply 0, success_reply 0 issued_token]
   = (Some (Inl (Error ''Authentication timed out. Please try again.'')),
      \<lparr> clock = 3500, pollIntervalMs = 2000, effects = [Fetch, Sleep 2000, Fetch, Sleep 2000] \<rparr>)"
  by (simp add: loop_defs)

text \<open>
  C8, amended. Let the loop start an iteration inside the window, poll, receive a pending
  reply and wait, and let cancellation be requested at \<open>tc\<close> during that wait. Then the
  wait ends at \<open>tc\<close> and the loop ends there and then, whatever replies the server still
  holds: no further poll is made. It ends with ``Authentication cancelled.'' when the
  device code has not expired at \<open>tc\<close>, and with the time-out error otherwise; the two
  errors differ.
\<close>

theorem cancelled_during_wait:
  assumes entered: "clock st - pollStart < timeoutMs"
    and polled: "reply r = Inr response" "pollDeviceToken response = Inr t" "isDeviceTokenPending t"
    and interval: "interval = (if slowDown t = Some True
                               then min ((pollIntervalMs st * 3) div 2) 10000 else pollIntervalMs st)"
    and fired: "clock st + int (latency r) \<le> tc" "tc < clock st + int (latency r) + interval"
    and not_before: "clock st < tc"
  shows "poll_loop (Some tc) pollStart timeoutMs (r # rest) st =
           (Some (Inl (if tc - pollStart < timeoutMs
                       then Error ''Authentication cancelled.''
                       else Error ''Authentication timed out. Please try again.'')),
            st\<lparr>pollIntervalMs := interval, clock := tc,
                effects := effects st @ [Fetch, Sleep interval]\<rparr>)
       \<and> Error ''Authentication cancelled.'' \<noteq> Error ''Authentication timed out. Please try again.''"
proof -
  define st2 where
    "st2 = st\<lparr>pollIntervalMs := interval, clock := tc,
              effects := effects st @ [Fetch, Sleep interval]\<rparr>"
  have pos: "0 < interval"
    using fired by simp
  have wake: "sleep interval (Some tc) (clock st + int (latency r)) = tc"
    using fired pos by (simp add: sleep_def)
  have step: "poll_loop (Some tc) pollStart timeoutMs (r # rest) st =
              poll_loop (Some tc) pollStart timeoutMs rest st2"
    using entered polled not_before wake interval
    by (auto simp add: poll_loop.simps[of _ _ _ "r # rest"] isCancellationRequested_def Let_def
        st2_def split: if_splits)
  have "poll_loop (Some tc) pollStart timeoutMs rest st2 =
          (Some (Inl (if tc - pollStart < timeoutMs
                       then Error ''Authentication cancelled.''
                       else Error ''Authentication timed out. Please try again.'')), st2)"
    by (simp add: poll_loop.simps[of _ _ _ rest] isCancellationRequested_def st2_def)
  then show ?thesis
    using step by (simp add: st2_def)
qed

theorem cancelled_during_wait_witness:
  "clock \<lparr>clock = 0, pollIntervalMs = 2000, effects = []\<rparr> - 0 < (600000::int)
   \<and> pollDeviceToken \<lparr> status = 400, statusText = ''Bad Request'', responseText = [],
                        body_json = Some (OAuthErrorResponse ''authorization_pending'' None) \<rparr>
       = Inr (DeviceTokenPending None)
   \<and> isDeviceTokenPending (DeviceTokenPending None)
   \<and> poll_loop (Some 900) 0 600000 [pending_reply 150, success_reply 100 issued_token]
        \<lparr>clock = 0, pollIntervalMs = 2000, effects = []\<rparr>
      = (Some (Inl (Error ''Authentication cancelled.'')),
         \<lparr>clock = 900, pollIntervalMs = 2000, effects = [Fetch, Sleep 2000]\<rparr>)
   \<and> startDeviceFlow (Some 900) 0 (device_authorization 600)
        [pending_reply 150, success_reply 100 issued_token]
      = (Some (Inl (Error ''Authentication cancelled.'')),
         \<lparr>clock = 900, pollIntervalMs = 2000, effects = [Fetch, Sleep 2000]\<rparr>)"
proof -
  let ?st = "\<lparr>clock = 0, pollIntervalMs = 2000, effects = []\<rparr>"
  let ?response = "\<lparr> status = 400, statusText = ''Bad Request'', responseText = [],
                     body_json = Some (OAuthErrorResponse ''authorization_pending'' None) \<rparr>"
  have h1: "clock ?st - 0 < (600000::int)"
    by simp
  have h2: "reply (pending_reply 150) = Inr ?response"
    by (simp add: pending_reply_def)
  have h3: "pollDeviceToken ?response = Inr (DeviceTokenPending None)"
    by (simp add: pollDeviceToken_def ok_def error_code_def)
  have h4: "isDeviceTokenPending (DeviceTokenPending None)"
    by (simp add: isDeviceTokenPending_def)
  have h5: "(2000::int) = (if slowDown (DeviceTokenPending None) = Some True
                          then min ((pollIntervalMs ?st * 3) div 2) 10000 else pollIntervalMs ?st)"
    by simp
  have h6: "clock ?st + int (latency (pending_reply 150)) \<le> 900"
    by (simp add: pending_reply_def)
  have h7: "900 < clock ?st + int (latency (pending_reply 150)) + 2000"
    by (simp add: pending_reply_def)
  have h8: "clock ?st < 900"
    by simp
  show ?thesis
    using h1 h3 h4
      cancelled_during_wait[OF h1 h2 h3 h4 h5 h6 h7 h8, of "[success_reply 100 issued_token]"]
    by (simp add: startDeviceFlow_def device_authorization_def)
qed

end
